theory Spec2Isabelle
  imports Main
begin

section \<open>Data model of editmsg.c\<close>

text \<open>
  The flags of \<^verbatim>\<open>struct Email\<close> that editmsg.c reads or writes. An email is
  referred to through a pointer, so the emails live in a store indexed by address.
\<close>

record email =
  read :: bool
  old :: bool
  tagged :: bool
  deleted :: bool
  purged :: bool

type_synonym addr = nat

text \<open>
  \<^verbatim>\<open>enum MailboxType\<close> is declared in mailbox.h. editmsg.c only ever compares a
  magic with \<^verbatim>\<open>MUTT_MBOX\<close> and \<^verbatim>\<open>MUTT_MMDF\<close>; every other enumerator is
  \<open>MUTT_OTHER\<close> here.
\<close>

datatype MailboxType = MUTT_MBOX | MUTT_MMDF | MUTT_OTHER

text \<open>
  The copy-header flags (copy.h) and the open-new-message flags (mx.h) that editmsg.c
  names. They are bit masks in C; a flag word is the set of the masks or-ed together,
  \<open>{}\<close> being 0.
\<close>

datatype ch_flag = CH_NOLEN | CH_NOSTATUS | CH_FROM | CH_FORCE_FROM

datatype open_flag = MUTT_ADD_FROM

datatype flag = MUTT_DELETE | MUTT_PURGE | MUTT_READ | MUTT_TAG

text \<open>
  Of \<^verbatim>\<open>struct Mailbox\<close>: the magic and the array \<^verbatim>\<open>emails\<close> of pointers, whose
  length is \<^verbatim>\<open>msg_count\<close>. Each email of a mailbox is an object of its own; where a
  statement depends on it, the pointers are assumed pairwise distinct.
\<close>

record Mailbox =
  magic :: MailboxType
  emails :: "addr list"

definition msg_count :: "Mailbox \<Rightarrow> nat" where
  "msg_count m = length (emails m)"

record Context =
  mailbox :: Mailbox

text \<open>The two fields of \<^verbatim>\<open>struct stat\<close> that are read.\<close>

record stat =
  st_size :: int
  st_mtime :: int

subsection \<open>Effects\<close>

text \<open>
  Every call that leaves editmsg.c is recorded, in program order, with the arguments
  that matter. \<open>Mx_msg_open_new\<close> carries the flags of the email as the callee sees
  them at the time of the call.
\<close>

datatype event =
    Mutt_mktemp
  | Mx_mbox_open_newfolder MailboxType
  | Mutt_append_message addr "ch_flag set"
  | Mx_mbox_close
  | Truncate int
  | Mutt_file_chmod_rm_stat
  | Mutt_file_decrease_mtime
  | Mutt_edit_file
  | Fopen
  | Mx_mbox_open_append
  | Mx_msg_open_new addr email "open_flag set"
  | Mutt_copy_hdr int "ch_flag set"
  | Fputc_newline
  | Mutt_file_copy_stream
  | Mx_msg_commit
  | Mx_msg_close
  | Mutt_file_fclose
  | Unlink
  | Mutt_set_flag addr flag bool
  | Mutt_error string
  | Mutt_message string
  | Mutt_debug string

text \<open>
  The program state: the emails, the trace of calls, and the two globals that are
  read (\<^verbatim>\<open>MboxType\<close>, \<^verbatim>\<open>DeleteUntag\<close>).
\<close>

record state =
  heap :: "addr \<Rightarrow> email"
  trace :: "event list"
  MboxType :: MailboxType
  DeleteUntag :: bool

text \<open>
  What the world answers during one run of \<^verbatim>\<open>edit_or_view_one_message\<close>: the
  result of each call whose result the function inspects.
  \<^item> \<open>mx_mbox_open_tmp\<close>: whether \<^verbatim>\<open>mx_mbox_open(NULL, tmp, MUTT_NEWFOLDER)\<close> is non-NULL;
  \<^item> \<open>stat_before\<close>, \<open>stat_after\<close>: \<^verbatim>\<open>stat(tmp, &sb)\<close> before and after the
    editor, \<open>None\<close> for the return value -1, \<open>Some sb\<close> for 0;
  \<^item> \<open>mx_mbox_open_append\<close>: \<^verbatim>\<open>mx_mbox_open(m, NULL, MUTT_APPEND)\<close>, \<open>None\<close> for
    NULL, otherwise the magic of \<^verbatim>\<open>tmpctx->mailbox\<close>;
  \<^item> \<open>fgets_buf\<close>: what \<^verbatim>\<open>fgets(buf, sizeof(buf), fp)\<close> stores in \<^verbatim>\<open>buf\<close>, that is
    the first line of the edited file or, when the line is longer, its first
    \<^verbatim>\<open>sizeof(buf) - 1\<close> bytes; \<open>None\<close> when \<^verbatim>\<open>fgets\<close> returns NULL;
    \<open>is_from\<close> is the classifier of email/from.c, applied to \<^verbatim>\<open>buf\<close>;
  \<^item> the others are the integer return values of the calls they are named after.
\<close>

record env =
  mx_mbox_open_tmp :: bool
  mutt_append_message_rc :: int
  stat_before :: "stat option"
  truncate_rc :: int
  chmod_rc :: int
  decrease_mtime :: int
  stat_after :: "stat option"
  fopen_ok :: bool
  mx_mbox_open_append :: "MailboxType option"
  fgets_buf :: "string option"
  is_from :: "string \<Rightarrow> bool"
  mx_msg_open_new_ok :: bool
  mutt_copy_hdr_rc :: int
  mx_msg_commit_rc :: int

definition emit :: "event \<Rightarrow> state \<Rightarrow> state" where
  "emit ev st = st\<lparr>trace := trace st @ [ev]\<rparr>"

text \<open>
  Modelled from the spec: \<^verbatim>\<open>mutt_set_flag\<close> (flags.c) is not among the sources.
  The spec's "mark the original StoredMessage as deleted, purged, and read (and ...
  also untagged)" is taken as: setting a flag stores the given value in the field of
  the email that the flag names.
\<close>

fun set_email_flag :: "flag \<Rightarrow> bool \<Rightarrow> email \<Rightarrow> email" where
  "set_email_flag MUTT_DELETE b e = e\<lparr>deleted := b\<rparr>"
| "set_email_flag MUTT_PURGE b e = e\<lparr>purged := b\<rparr>"
| "set_email_flag MUTT_READ b e = e\<lparr>read := b\<rparr>"
| "set_email_flag MUTT_TAG b e = e\<lparr>tagged := b\<rparr>"

definition mutt_set_flag :: "addr \<Rightarrow> flag \<Rightarrow> bool \<Rightarrow> state \<Rightarrow> state" where
  "mutt_set_flag cur f b st =
     emit (Mutt_set_flag cur f b)
       (st\<lparr>heap := (heap st)(cur := set_email_flag f b (heap st cur))\<rparr>)"

section \<open>edit_or_view_one_message\<close>

text \<open>
  Lines 240-258, the label \<^verbatim>\<open>bail\<close>: close the file, unlink the temporary file when
  \<open>rc \<ge> 0\<close>, flag the original when \<open>rc = 0\<close>, report the preserved file when
  \<open>rc = -1\<close>, return \<open>rc\<close>.
\<close>

definition bail :: "int \<Rightarrow> addr \<Rightarrow> state \<Rightarrow> int \<times> state" where
  "bail rc cur st0 =
     (let st1 = emit Mutt_file_fclose st0;
          st2 = (if rc \<ge> 0 then emit Unlink st1 else st1);
          st3 = (if rc = 0 then
                   (let s1 = mutt_set_flag cur MUTT_DELETE True st2;
                        s2 = mutt_set_flag cur MUTT_PURGE True s1;
                        s3 = mutt_set_flag cur MUTT_READ True s2
                    in if DeleteUntag s3 then mutt_set_flag cur MUTT_TAG False s3 else s3)
                 else if rc = -1 then
                   emit (Mutt_message ''Error. Preserving temporary file: %s'') st2
                 else st2)
      in (rc, st3))"

text \<open>
  Lines 197-208: the flags for opening the new message (\<^verbatim>\<open>of\<close>) and for copying
  the header (\<^verbatim>\<open>cf\<close>), from the magic of the mailbox opened for appending and from
  \<^verbatim>\<open>fgets(buf, sizeof(buf), fp) && is_from(buf, NULL, 0, NULL)\<close>.
\<close>

definition from_line :: "env \<Rightarrow> bool" where
  "from_line env = (case fgets_buf env of None \<Rightarrow> False | Some buf \<Rightarrow> is_from env buf)"

definition copy_modes :: "MailboxType \<Rightarrow> bool \<Rightarrow> open_flag set \<times> ch_flag set" where
  "copy_modes dest_magic is_from_line =
     (let oflags = {};
          cf = (if dest_magic = MUTT_MBOX \<or> dest_magic = MUTT_MMDF then {} else {CH_NOSTATUS})
      in if is_from_line then
           (if dest_magic = MUTT_MBOX \<or> dest_magic = MUTT_MMDF
            then (oflags, {CH_FROM} \<union> {CH_FORCE_FROM})
            else (oflags, cf))
         else ({MUTT_ADD_FROM}, cf))"

text \<open>
  Lines 213-219: \<^verbatim>\<open>mx_msg_open_new\<close> is called with the \<open>read\<close> and \<open>old\<close> flags of
  the email cleared; both are put back right after the call, whatever it returned.
\<close>

definition open_new_message :: "env \<Rightarrow> addr \<Rightarrow> open_flag set \<Rightarrow> state \<Rightarrow> bool \<times> state" where
  "open_new_message env cur oflags st =
     (let o_read = read (heap st cur);
          o_old = old (heap st cur);
          st1 = st\<lparr>heap := (heap st)(cur := (heap st cur)\<lparr>read := False\<rparr>)\<rparr>;
          st2 = st1\<lparr>heap := (heap st1)(cur := (heap st1 cur)\<lparr>old := False\<rparr>)\<rparr>;
          st3 = emit (Mx_msg_open_new cur (heap st2 cur) oflags) st2;
          msg = mx_msg_open_new_ok env;
          st4 = st3\<lparr>heap := (heap st3)(cur := (heap st3 cur)\<lparr>read := o_read\<rparr>)\<rparr>;
          st5 = st4\<lparr>heap := (heap st4)(cur := (heap st4 cur)\<lparr>old := o_old\<rparr>)\<rparr>
      in (msg, st5))"

text \<open>
  Lines 180-238: the edited file is folded back into the mailbox. \<open>rc\<close> is the value
  the variable holds on entry (the return value of the \<^verbatim>\<open>stat\<close> of line 145); the
  branch of line 221 leaves for \<^verbatim>\<open>bail\<close> without assigning it. The value returned by
  \<^verbatim>\<open>mutt_copy_hdr\<close> only decides whether the body is copied: line 235 overwrites it
  with the value of \<^verbatim>\<open>mx_msg_commit\<close>. The value of \<^verbatim>\<open>mutt_file_copy_stream\<close> is
  not read.
\<close>

definition reintegrate :: "env \<Rightarrow> addr \<Rightarrow> stat \<Rightarrow> int \<Rightarrow> state \<Rightarrow> int \<times> state" where
  "reintegrate env cur sb rc st0 =
     (let st1 = emit Fopen st0 in
      if \<not> fopen_ok env then
        bail (-1) cur (emit (Mutt_error ''Can't open message file: %s'') st1)
      else
        let st2 = emit Mx_mbox_open_append st1 in
        case mx_mbox_open_append env of
          None \<Rightarrow> bail (-1) cur (emit (Mutt_error ''Can't append to folder: %s'') st2)
        | Some dest_magic \<Rightarrow>
            let (oflags, cf) = copy_modes dest_magic (from_line env);
                (msg, st3) = open_new_message env cur oflags st2
            in if \<not> msg then
                 bail rc cur
                   (emit Mx_mbox_close (emit (Mutt_error ''Can't append to folder: %s'') st3))
               else
                 let st4 = emit (Mutt_copy_hdr (st_size sb) ({CH_NOLEN} \<union> cf)) st3;
                     rc1 = mutt_copy_hdr_rc env;
                     st5 = (if rc1 = 0
                            then emit Mutt_file_copy_stream (emit Fputc_newline st4)
                            else st4);
                     st6 = emit Mx_msg_commit st5;
                     rc2 = mx_msg_commit_rc env;
                     st7 = emit Mx_msg_close st6;
                     st8 = emit Mx_mbox_close st7
                 in bail rc2 cur st8)"

text \<open>
  Lines 145-178: the temporary file is inspected after the editor has returned;
  \<open>mtime\<close> is the value \<^verbatim>\<open>mutt_file_decrease_mtime\<close> returned before the editor ran.
\<close>

definition after_edit :: "bool \<Rightarrow> env \<Rightarrow> addr \<Rightarrow> int \<Rightarrow> state \<Rightarrow> int \<times> state" where
  "after_edit edit env cur mtime st =
     (case stat_after env of
        None \<Rightarrow> bail (-1) cur (emit (Mutt_error ''Can't stat %s: %s'') st)
      | Some sb \<Rightarrow>
          let rc = 0 in
          if st_size sb = 0 then
            bail 1 cur (emit (Mutt_message ''Message file is empty'') st)
          else if edit \<and> st_mtime sb = mtime then
            bail 1 cur (emit (Mutt_message ''Message not modified'') st)
          else if \<not> edit \<and> st_mtime sb \<noteq> mtime then
            bail 1 cur
              (emit (Mutt_message ''Message of read-only mailbox modified! Ignoring changes.'') st)
          else if \<not> edit then
            bail 1 cur st
          else reintegrate env cur sb rc st)"

text \<open>
  Lines 128-143, continued by \<open>after_edit\<close>: in view mode the write permissions are
  removed (a failure is only logged), the reference modification time is taken and
  the editor is run. The value \<^verbatim>\<open>rc\<close> gets from \<^verbatim>\<open>mutt_file_chmod_rm_stat\<close> is
  overwritten by the \<^verbatim>\<open>stat\<close> of line 145 before it is read again.
\<close>

definition run_editor :: "bool \<Rightarrow> env \<Rightarrow> addr \<Rightarrow> state \<Rightarrow> int \<times> state" where
  "run_editor edit env cur st0 =
     (let st1 = (if \<not> edit then
                   (let s = emit Mutt_file_chmod_rm_stat st0
                    in if chmod_rc env = -1
                       then emit (Mutt_debug ''Could not remove write permissions of %s: %s'') s
                       else s)
                 else st0);
          mtime = decrease_mtime env;
          st2 = emit Mutt_file_decrease_mtime st1;
          st3 = emit Mutt_edit_file st2
      in after_edit edit env cur mtime st3)"

text \<open>
  Lines 61-126, continued by \<open>run_editor\<close>. The only exit that does not pass through
  \<^verbatim>\<open>bail\<close> is the \<^verbatim>\<open>return -1\<close> of line 93. At line 122 \<open>rc\<close> holds the value 0
  of the \<^verbatim>\<open>stat\<close> that just succeeded, and the branch leaves for \<^verbatim>\<open>bail\<close>
  without assigning it; \<^verbatim>\<open>truncate\<close> is called only when the size is not 0.
\<close>

definition edit_or_view_one_message ::
    "bool \<Rightarrow> env \<Rightarrow> Mailbox \<Rightarrow> addr \<Rightarrow> state \<Rightarrow> int \<times> state" where
  "edit_or_view_one_message edit env m cur st0 =
     (let st1 = emit Mutt_mktemp st0;
          omagic = MboxType st1;
          st2 = st1\<lparr>MboxType := MUTT_MBOX\<rparr>;
          st3 = emit (Mx_mbox_open_newfolder (MboxType st2)) st2;
          st4 = st3\<lparr>MboxType := omagic\<rparr>
      in if \<not> mx_mbox_open_tmp env then
           (-1, emit (Mutt_error ''could not create temporary folder: %s'') st4)
         else
           let chflags = {CH_NOLEN} \<union>
                 (if magic m = MUTT_MBOX \<or> magic m = MUTT_MMDF then {} else {CH_NOSTATUS});
               st5 = emit (Mutt_append_message cur chflags) st4;
               rc = mutt_append_message_rc env;
               st6 = emit Mx_mbox_close st5
           in if rc = -1 then
                bail rc cur (emit (Mutt_error ''could not write temporary mail folder: %s'') st6)
              else
                case stat_before env of
                  None \<Rightarrow> bail (-1) cur (emit (Mutt_error ''Can't stat %s: %s'') st6)
                | Some sb \<Rightarrow>
                    let rc = 0;
                        st7 = (if st_size sb \<noteq> 0
                               then emit (Truncate (st_size sb - 1)) st6 else st6)
                    in if st_size sb \<noteq> 0 \<and> truncate_rc env = -1 then
                         bail rc cur
                           (emit (Mutt_error ''could not truncate temporary mail folder: %s'') st7)
                       else run_editor edit env cur st7)"

section \<open>edit_or_view_message\<close>

text \<open>
  Modelled from the spec: \<^verbatim>\<open>message_is_tagged\<close> (context.c) is not among the
  sources. The spec's "running the Orchestrator on every message flagged tagged,
  skipping others" is taken as: the message at index \<open>i\<close> is tagged when its
  \<open>tagged\<close> flag is set.
\<close>

definition message_is_tagged :: "Context \<Rightarrow> nat \<Rightarrow> state \<Rightarrow> bool" where
  "message_is_tagged ctx i st = tagged (heap st (emails (mailbox ctx) ! i))"

text \<open>
  Lines 275-284, the loop from index \<open>i\<close> on. \<open>envs i\<close> is what the world answers
  during the run made for index \<open>i\<close>.
\<close>

function edit_loop :: "bool \<Rightarrow> (nat \<Rightarrow> env) \<Rightarrow> Context \<Rightarrow> nat \<Rightarrow> state \<Rightarrow> int \<times> state" where
  "edit_loop edit envs ctx i st =
     (if i < msg_count (mailbox ctx) then
        (if \<not> message_is_tagged ctx i st then edit_loop edit envs ctx (i + 1) st
         else
           let r = edit_or_view_one_message edit (envs i) (mailbox ctx)
                     (emails (mailbox ctx) ! i) st
           in if fst r = -1 then (-1, snd r)
              else edit_loop edit envs ctx (i + 1) (snd r))
      else (0, st))"
  by pat_completeness auto
termination
  by (relation "measure (\<lambda>(edit, envs, ctx, i, st). msg_count (mailbox ctx) - i)") auto

text \<open>
  Lines 270-285. \<open>e\<close> is the pointer argument: \<open>None\<close> for NULL. A run for a single
  email uses \<open>envs 0\<close>.
\<close>

definition edit_or_view_message ::
    "bool \<Rightarrow> (nat \<Rightarrow> env) \<Rightarrow> Context \<Rightarrow> addr option \<Rightarrow> state \<Rightarrow> int \<times> state" where
  "edit_or_view_message edit envs ctx e st =
     (case e of
        Some cur \<Rightarrow> edit_or_view_one_message edit (envs 0) (mailbox ctx) cur st
      | None \<Rightarrow> edit_loop edit envs ctx 0 st)"

definition mutt_edit_message :: "(nat \<Rightarrow> env) \<Rightarrow> Context \<Rightarrow> addr option \<Rightarrow> state \<Rightarrow> int \<times> state" where
  "mutt_edit_message envs ctx e st = edit_or_view_message True envs ctx e st"

definition mutt_view_message :: "(nat \<Rightarrow> env) \<Rightarrow> Context \<Rightarrow> addr option \<Rightarrow> state \<Rightarrow> int \<times> state" where
  "mutt_view_message envs ctx e st = edit_or_view_message False envs ctx e st"

section \<open>Vocabulary of the statements\<close>

text \<open>The calls made between two states: what the trace has gained.\<close>

definition new_events :: "state \<Rightarrow> state \<Rightarrow> event list" where
  "new_events st st' = drop (length (trace st)) (trace st')"

text \<open>The calls that act on the mailbox the edited message is appended to.\<close>

fun reintegration_event :: "event \<Rightarrow> bool" where
  "reintegration_event Mx_mbox_open_append = True"
| "reintegration_event (Mx_msg_open_new a e f) = True"
| "reintegration_event (Mutt_copy_hdr n f) = True"
| "reintegration_event Fputc_newline = True"
| "reintegration_event Mutt_file_copy_stream = True"
| "reintegration_event Mx_msg_commit = True"
| "reintegration_event Mx_msg_close = True"
| "reintegration_event _ = False"

fun is_set_flag :: "event \<Rightarrow> bool" where
  "is_set_flag (Mutt_set_flag a f b) = True"
| "is_set_flag _ = False"

fun is_truncate :: "event \<Rightarrow> bool" where
  "is_truncate (Truncate n) = True"
| "is_truncate _ = False"

fun opens_or_copies :: "event \<Rightarrow> bool" where
  "opens_or_copies (Mx_msg_open_new a e f) = True"
| "opens_or_copies (Mutt_copy_hdr n f) = True"
| "opens_or_copies _ = False"

fun not_cleared :: "addr \<Rightarrow> event \<Rightarrow> bool" where
  "not_cleared cur (Mx_msg_open_new a e f) = (a \<noteq> cur \<or> read e \<or> old e)"
| "not_cleared cur _ = False"

text \<open>The calls of \<^verbatim>\<open>mutt_set_flag\<close> of lines 248-253, and their effect on an email.\<close>

definition flag_events :: "addr \<Rightarrow> bool \<Rightarrow> event list" where
  "flag_events cur du =
     [Mutt_set_flag cur MUTT_DELETE True, Mutt_set_flag cur MUTT_PURGE True,
      Mutt_set_flag cur MUTT_READ True] @
     (if du then [Mutt_set_flag cur MUTT_TAG False] else [])"

definition flagged :: "bool \<Rightarrow> email \<Rightarrow> email" where
  "flagged du e =
     (let e3 = set_email_flag MUTT_READ True
                 (set_email_flag MUTT_PURGE True (set_email_flag MUTT_DELETE True e))
      in if du then set_email_flag MUTT_TAG False e3 else e3)"

subsection \<open>The batch, in the words of the specification\<close>

text \<open>The run made for the message at index \<open>i\<close> of the mailbox.\<close>

definition run_at :: "bool \<Rightarrow> (nat \<Rightarrow> env) \<Rightarrow> Context \<Rightarrow> nat \<Rightarrow> state \<Rightarrow> int \<times> state" where
  "run_at edit envs ctx i st =
     edit_or_view_one_message edit (envs i) (mailbox ctx) (emails (mailbox ctx) ! i) st"

text \<open>The indices of the messages that are tagged in state \<open>st\<close>, in stored order.\<close>

definition tagged_indices :: "Context \<Rightarrow> state \<Rightarrow> nat list" where
  "tagged_indices ctx st =
     filter (\<lambda>i. tagged (heap st (emails (mailbox ctx) ! i))) [0..<msg_count (mailbox ctx)]"

definition fails_at :: "bool \<Rightarrow> (nat \<Rightarrow> env) \<Rightarrow> Context \<Rightarrow> state \<Rightarrow> nat \<Rightarrow> bool" where
  "fails_at edit envs ctx st i = (fst (run_at edit envs ctx i st) = -1)"

text \<open>A list of indices cut right after its first failing element.\<close>

definition up_to_first_failure :: "(nat \<Rightarrow> bool) \<Rightarrow> nat list \<Rightarrow> nat list" where
  "up_to_first_failure failed js =
     takeWhile (\<lambda>i. \<not> failed i) js @ take 1 (dropWhile (\<lambda>i. \<not> failed i) js)"

text \<open>
  The messages the specification has the batch process: the tagged ones in stored
  order, up to and including the first whose run fails.
\<close>

definition visited :: "bool \<Rightarrow> (nat \<Rightarrow> env) \<Rightarrow> Context \<Rightarrow> state \<Rightarrow> nat list" where
  "visited edit envs ctx st =
     up_to_first_failure (fails_at edit envs ctx st) (tagged_indices ctx st)"

fun run_list :: "bool \<Rightarrow> (nat \<Rightarrow> env) \<Rightarrow> Context \<Rightarrow> nat list \<Rightarrow> state \<Rightarrow> int \<times> state" where
  "run_list edit envs ctx [] st = (0, st)"
| "run_list edit envs ctx (i # js) st =
     (let r = run_at edit envs ctx i st
      in if fst r = -1 then (-1, snd r) else run_list edit envs ctx js (snd r))"

subsection \<open>Concrete inputs\<close>

definition email0 :: email where
  "email0 = \<lparr>read = False, old = False, tagged = False, deleted = False, purged = False\<rparr>"

definition st_init :: state where
  "st_init = \<lparr>heap = (\<lambda>_. email0), trace = [], MboxType = MUTT_OTHER, DeleteUntag = False\<rparr>"

text \<open>
  Three emails at addresses 1, 2 and 3, all tagged, the first also read and old;
  \<^verbatim>\<open>DeleteUntag\<close> is set.
\<close>

definition st_tagged :: state where
  "st_tagged =
     \<lparr>heap = (\<lambda>_. email0)
        (1 := email0\<lparr>read := True, old := True, tagged := True\<rparr>,
         2 := email0\<lparr>tagged := True\<rparr>,
         3 := email0\<lparr>tagged := True\<rparr>),
      trace = [], MboxType = MUTT_OTHER, DeleteUntag = True\<rparr>"

definition mbox :: Mailbox where
  "mbox = \<lparr>magic = MUTT_MBOX, emails = [1, 2, 3]\<rparr>"

definition ctx3 :: Context where
  "ctx3 = \<lparr>mailbox = mbox\<rparr>"

text \<open>Every call succeeds and the editor has changed the file.\<close>

definition env_ok :: env where
  "env_ok =
     \<lparr>mx_mbox_open_tmp = True, mutt_append_message_rc = 0,
      stat_before = Some \<lparr>st_size = 120, st_mtime = 1000\<rparr>,
      truncate_rc = 0, chmod_rc = 0, decrease_mtime = 999,
      stat_after = Some \<lparr>st_size = 125, st_mtime = 1005\<rparr>,
      fopen_ok = True, mx_mbox_open_append = Some MUTT_MBOX,
      fgets_buf = Some ''From a@b Mon Jan  1 00:00:00 2018'',
      is_from = (\<lambda>buf. take 5 buf = ''From ''),
      mx_msg_open_new_ok = True, mutt_copy_hdr_rc = 0, mx_msg_commit_rc = 0\<rparr>"

definition env_unmodified :: env where
  "env_unmodified = env_ok\<lparr>stat_after := Some \<lparr>st_size = 119, st_mtime = 999\<rparr>\<rparr>"

definition env_empty :: env where
  "env_empty = env_ok\<lparr>stat_after := Some \<lparr>st_size = 0, st_mtime = 1005\<rparr>\<rparr>"

definition env_truncate_fails :: env where
  "env_truncate_fails = env_ok\<lparr>truncate_rc := -1\<rparr>"

definition env_open_new_fails :: env where
  "env_open_new_fails = env_ok\<lparr>mx_msg_open_new_ok := False\<rparr>"

definition env_copy_hdr_fails :: env where
  "env_copy_hdr_fails = env_ok\<lparr>mutt_copy_hdr_rc := -1\<rparr>"

definition env_commit_fails :: env where
  "env_commit_fails = env_ok\<lparr>mx_msg_commit_rc := -1\<rparr>"




text \<open>The first run commits, the second fails to commit, the third would commit.\<close>

definition envs_second_fails :: "nat \<Rightarrow> env" where
  "envs_second_fails i = (if i = 1 then env_commit_fails else env_ok)"

section \<open>Stage lemmas\<close>

lemma heap_emit [simp]: "heap (emit ev st) = heap st"
  and trace_emit [simp]: "trace (emit ev st) = trace st @ [ev]"
  and DeleteUntag_emit [simp]: "DeleteUntag (emit ev st) = DeleteUntag st"
  and MboxType_emit [simp]: "MboxType (emit ev st) = MboxType st"
  by (simp_all add: emit_def)

lemma heap_mutt_set_flag [simp]:
    "heap (mutt_set_flag cur f b st) = (heap st)(cur := set_email_flag f b (heap st cur))"
  and trace_mutt_set_flag [simp]:
    "trace (mutt_set_flag cur f b st) = trace st @ [Mutt_set_flag cur f b]"
  and DeleteUntag_mutt_set_flag [simp]:
    "DeleteUntag (mutt_set_flag cur f b st) = DeleteUntag st"
  by (simp_all add: mutt_set_flag_def)

lemma flagged_fields [simp]:
  "deleted (flagged du e)" "purged (flagged du e)" "read (flagged du e)"
  "tagged (flagged du e) = (\<not> du \<and> tagged e)" "old (flagged du e) = old e"
  by (simp_all add: flagged_def Let_def)

subsection \<open>Return value\<close>

lemma fst_bail [simp]: "fst (bail rc cur st) = rc"
  by (simp add: bail_def Let_def)

lemma fst_open_new_message [simp]:
  "fst (open_new_message env cur oflags st) = mx_msg_open_new_ok env"
  by (simp add: open_new_message_def Let_def)

lemma fst_reintegrate:
  "fst (reintegrate env cur sb rc st) =
     (if \<not> fopen_ok env then -1
      else case mx_mbox_open_append env of
             None \<Rightarrow> -1
           | Some d \<Rightarrow> if mx_msg_open_new_ok env then mx_msg_commit_rc env else rc)"
  by (simp add: reintegrate_def Let_def split_beta split: option.splits)

lemma fst_after_edit:
  "fst (after_edit edit env cur mtime st) =
     (case stat_after env of
        None \<Rightarrow> -1
      | Some sb \<Rightarrow>
          if st_size sb = 0 \<or> \<not> edit \<or> st_mtime sb = mtime then 1
          else fst (reintegrate env cur sb 0 st))"
  by (simp add: after_edit_def Let_def split: option.splits)

lemma fst_run_editor:
  "fst (run_editor edit env cur st) = fst (after_edit edit env cur (decrease_mtime env) st)"
  by (simp add: run_editor_def Let_def fst_after_edit fst_reintegrate split: option.splits)

lemma fst_one:
  "fst (edit_or_view_one_message edit env m cur st) =
     (if \<not> mx_mbox_open_tmp env \<or> mutt_append_message_rc env = -1 then -1
      else case stat_before env of
             None \<Rightarrow> -1
           | Some sb \<Rightarrow>
               if st_size sb \<noteq> 0 \<and> truncate_rc env = -1 then 0
               else fst (after_edit edit env cur (decrease_mtime env) st))"
  by (simp add: edit_or_view_one_message_def Let_def fst_run_editor fst_after_edit
      fst_reintegrate split: option.splits)

lemma fst_one_state_indep:
  "fst (edit_or_view_one_message edit env m cur st) =
   fst (edit_or_view_one_message edit env m' cur' st')"
  by (simp add: fst_one fst_after_edit fst_reintegrate split: option.splits)

subsection \<open>Emails\<close>

lemma heap_bail:
  "heap (snd (bail rc cur st)) =
     (if rc = 0 then (heap st)(cur := flagged (DeleteUntag st) (heap st cur)) else heap st)"
  by (simp add: bail_def Let_def flagged_def)

lemma DeleteUntag_bail [simp]: "DeleteUntag (snd (bail rc cur st)) = DeleteUntag st"
  by (simp add: bail_def Let_def)

lemma heap_open_new_message [simp]:
  "heap (snd (open_new_message env cur oflags st)) = heap st"
  by (simp add: open_new_message_def Let_def fun_eq_iff)

lemma trace_open_new_message [simp]:
  "trace (snd (open_new_message env cur oflags st)) =
     trace st @ [Mx_msg_open_new cur ((heap st cur)\<lparr>read := False, old := False\<rparr>) oflags]"
  by (simp add: open_new_message_def Let_def)

lemma DeleteUntag_open_new_message [simp]:
  "DeleteUntag (snd (open_new_message env cur oflags st)) = DeleteUntag st"
  by (simp add: open_new_message_def Let_def emit_def)

lemma heap_reintegrate:
  "heap (snd (reintegrate env cur sb rc st)) =
     (if fst (reintegrate env cur sb rc st) = 0
      then (heap st)(cur := flagged (DeleteUntag st) (heap st cur)) else heap st)"
  by (simp add: reintegrate_def Let_def split_beta heap_bail split: option.splits)

lemma heap_after_edit:
  "heap (snd (after_edit edit env cur mtime st)) =
     (if fst (after_edit edit env cur mtime st) = 0
      then (heap st)(cur := flagged (DeleteUntag st) (heap st cur)) else heap st)"
  by (simp add: after_edit_def Let_def heap_bail heap_reintegrate split: option.splits)

lemma heap_run_editor:
  "heap (snd (run_editor edit env cur st)) =
     (if fst (run_editor edit env cur st) = 0
      then (heap st)(cur := flagged (DeleteUntag st) (heap st cur)) else heap st)"
  by (simp add: run_editor_def Let_def heap_after_edit fst_after_edit fst_reintegrate
      split: option.splits)

lemma heap_one:
  "heap (snd (edit_or_view_one_message edit env m cur st)) =
     (if fst (edit_or_view_one_message edit env m cur st) = 0
      then (heap st)(cur := flagged (DeleteUntag st) (heap st cur)) else heap st)"
  by (simp add: edit_or_view_one_message_def Let_def heap_bail heap_run_editor
      split: option.splits)

lemma heap_one_other:
  "a \<noteq> cur \<Longrightarrow> heap (snd (edit_or_view_one_message edit env m cur st)) a = heap st a"
  by (simp add: heap_one)

subsection \<open>The trace only grows\<close>

lemma trace_bail:
  "trace (snd (bail rc cur st)) =
     trace st @ [Mutt_file_fclose] @ (if rc \<ge> 0 then [Unlink] else []) @
       (if rc = 0 then flag_events cur (DeleteUntag st)
        else if rc = -1 then [Mutt_message ''Error. Preserving temporary file: %s'']
        else [])"
  by (simp add: bail_def Let_def flag_events_def)

lemma take_bail:
  "n \<le> length (trace st) \<Longrightarrow> take n (trace (snd (bail rc cur st))) = take n (trace st)"
  by (simp add: trace_bail)

lemma take_reintegrate:
  "n \<le> length (trace st) \<Longrightarrow>
   take n (trace (snd (reintegrate env cur sb rc st))) = take n (trace st)"
  by (simp add: reintegrate_def Let_def split_beta take_bail split: option.splits)

lemma take_after_edit:
  "n \<le> length (trace st) \<Longrightarrow>
   take n (trace (snd (after_edit edit env cur mtime st))) = take n (trace st)"
  by (simp add: after_edit_def Let_def take_bail take_reintegrate split: option.splits)

lemma take_run_editor:
  "n \<le> length (trace st) \<Longrightarrow>
   take n (trace (snd (run_editor edit env cur st))) = take n (trace st)"
  by (simp add: run_editor_def Let_def take_after_edit)

lemma take_one:
  "n \<le> length (trace st) \<Longrightarrow>
   take n (trace (snd (edit_or_view_one_message edit env m cur st))) = take n (trace st)"
  by (simp add: edit_or_view_one_message_def Let_def take_bail take_run_editor
      split: option.splits)

lemma filter_new_events:
  assumes "take (length (trace st)) (trace st') = trace st"
    and "filter P (trace st') = filter P (trace st) @ xs"
  shows "filter P (new_events st st') = xs"
proof -
  have "trace st' = trace st @ new_events st st'"
    unfolding new_events_def using assms(1) by (metis append_take_drop_id)
  then have "filter P (trace st') = filter P (trace st) @ filter P (new_events st st')"
    by (metis filter_append)
  with assms(2) show ?thesis by simp
qed

subsection \<open>Calls of \<^verbatim>\<open>mutt_set_flag\<close>\<close>

lemma is_set_flag_flag_events [simp]: "filter is_set_flag (flag_events cur du) = flag_events cur du"
  by (simp add: flag_events_def)

lemma set_flag_bail:
  "filter is_set_flag (trace (snd (bail rc cur st))) =
   filter is_set_flag (trace st) @ (if rc = 0 then flag_events cur (DeleteUntag st) else [])"
  by (simp add: trace_bail)

lemma set_flag_reintegrate:
  "filter is_set_flag (trace (snd (reintegrate env cur sb rc st))) =
   filter is_set_flag (trace st) @
     (if fst (reintegrate env cur sb rc st) = 0 then flag_events cur (DeleteUntag st) else [])"
  by (simp add: reintegrate_def Let_def split_beta set_flag_bail split: option.splits)

lemma set_flag_after_edit:
  "filter is_set_flag (trace (snd (after_edit edit env cur mtime st))) =
   filter is_set_flag (trace st) @
     (if fst (after_edit edit env cur mtime st) = 0 then flag_events cur (DeleteUntag st) else [])"
  by (simp add: after_edit_def Let_def set_flag_bail set_flag_reintegrate split: option.splits)

lemma set_flag_run_editor:
  "filter is_set_flag (trace (snd (run_editor edit env cur st))) =
   filter is_set_flag (trace st) @
     (if fst (run_editor edit env cur st) = 0 then flag_events cur (DeleteUntag st) else [])"
  by (simp add: run_editor_def Let_def set_flag_after_edit fst_after_edit fst_reintegrate
      split: option.splits)

lemma set_flag_one:
  "filter is_set_flag (trace (snd (edit_or_view_one_message edit env m cur st))) =
   filter is_set_flag (trace st) @
     (if fst (edit_or_view_one_message edit env m cur st) = 0
      then flag_events cur (DeleteUntag st) else [])"
  by (simp add: edit_or_view_one_message_def Let_def set_flag_bail set_flag_run_editor
      split: option.splits)

subsection \<open>Calls of \<^verbatim>\<open>mx_msg_open_new\<close>\<close>

lemma not_cleared_flag_events [simp]: "filter (not_cleared cur) (flag_events a du) = []"
  by (simp add: flag_events_def)

lemma not_cleared_bail:
  "filter (not_cleared cur) (trace (snd (bail rc a st))) = filter (not_cleared cur) (trace st)"
  by (simp add: trace_bail)

lemma not_cleared_reintegrate:
  "filter (not_cleared cur) (trace (snd (reintegrate env cur sb rc st))) =
   filter (not_cleared cur) (trace st)"
  by (simp add: reintegrate_def Let_def split_beta not_cleared_bail split: option.splits)

lemma not_cleared_after_edit:
  "filter (not_cleared cur) (trace (snd (after_edit edit env cur mtime st))) =
   filter (not_cleared cur) (trace st)"
  by (simp add: after_edit_def Let_def not_cleared_bail not_cleared_reintegrate
      split: option.splits)

lemma not_cleared_run_editor:
  "filter (not_cleared cur) (trace (snd (run_editor edit env cur st))) =
   filter (not_cleared cur) (trace st)"
  by (simp add: run_editor_def Let_def not_cleared_after_edit)

lemma not_cleared_one:
  "filter (not_cleared cur) (trace (snd (edit_or_view_one_message edit env m cur st))) =
   filter (not_cleared cur) (trace st)"
  by (simp add: edit_or_view_one_message_def Let_def not_cleared_bail not_cleared_run_editor
      split: option.splits)

subsection \<open>Calls that open the new message and copy the header\<close>

lemma opens_or_copies_flag_events [simp]: "filter opens_or_copies (flag_events a du) = []"
  by (simp add: flag_events_def)



subsection \<open>Calls of \<^verbatim>\<open>truncate\<close>\<close>

lemma is_truncate_flag_events [simp]: "filter is_truncate (flag_events a du) = []"
  by (simp add: flag_events_def)

lemma is_truncate_bail:
  "filter is_truncate (trace (snd (bail rc a st))) = filter is_truncate (trace st)"
  by (simp add: trace_bail)

lemma is_truncate_reintegrate:
  "filter is_truncate (trace (snd (reintegrate env cur sb rc st))) = filter is_truncate (trace st)"
  by (simp add: reintegrate_def Let_def split_beta is_truncate_bail split: option.splits)

lemma is_truncate_after_edit:
  "filter is_truncate (trace (snd (after_edit edit env cur mtime st))) =
   filter is_truncate (trace st)"
  by (simp add: after_edit_def Let_def is_truncate_bail is_truncate_reintegrate
      split: option.splits)

lemma is_truncate_run_editor:
  "filter is_truncate (trace (snd (run_editor edit env cur st))) = filter is_truncate (trace st)"
  by (simp add: run_editor_def Let_def is_truncate_after_edit)

lemma is_truncate_one:
  assumes "mx_mbox_open_tmp env" and "mutt_append_message_rc env \<noteq> -1"
    and "stat_before env = Some sb"
  shows "filter is_truncate (trace (snd (edit_or_view_one_message edit env m cur st))) =
         filter is_truncate (trace st) @
           (if st_size sb \<noteq> 0 then [Truncate (st_size sb - 1)] else [])"
  using assms
  by (simp add: edit_or_view_one_message_def Let_def is_truncate_bail is_truncate_run_editor)

subsection \<open>Calls on the mailbox in view mode\<close>

lemma reintegration_flag_events [simp]: "filter reintegration_event (flag_events a du) = []"
  by (simp add: flag_events_def)

lemma reintegration_bail:
  "filter reintegration_event (trace (snd (bail rc a st))) = filter reintegration_event (trace st)"
  by (simp add: trace_bail)

lemma reintegration_after_edit_view:
  "filter reintegration_event (trace (snd (after_edit False env cur mtime st))) =
   filter reintegration_event (trace st)"
  by (simp add: after_edit_def Let_def reintegration_bail split: option.splits)

lemma reintegration_run_editor_view:
  "filter reintegration_event (trace (snd (run_editor False env cur st))) =
   filter reintegration_event (trace st)"
  by (simp add: run_editor_def Let_def reintegration_after_edit_view)

lemma reintegration_one_view:
  "filter reintegration_event (trace (snd (edit_or_view_one_message False env m cur st))) =
   filter reintegration_event (trace st) @ []"
  by (simp add: edit_or_view_one_message_def Let_def reintegration_bail
      reintegration_run_editor_view split: option.splits)

subsection \<open>Unfolding the whole function\<close>

lemmas one_defs = edit_or_view_one_message_def run_editor_def after_edit_def reintegrate_def
  Let_def split_beta trace_bail heap_bail new_events_def

lemmas eval_defs = edit_or_view_one_message_def run_editor_def after_edit_def reintegrate_def
  copy_modes_def from_line_def trace_bail heap_bail flag_events_def flagged_def
  Let_def split_beta

lemma rc_env_ok: "fst (edit_or_view_one_message True env_ok m cur st) = 0"
  by (simp add: fst_one fst_after_edit fst_reintegrate env_ok_def)

lemma rc_env_commit_fails: "fst (edit_or_view_one_message True env_commit_fails m cur st) = -1"
  by (simp add: fst_one fst_after_edit fst_reintegrate env_commit_fails_def env_ok_def)

lemma rc_env_unmodified: "fst (edit_or_view_one_message True env_unmodified m cur st) = 1"
  by (simp add: fst_one fst_after_edit fst_reintegrate env_unmodified_def env_ok_def)

subsection \<open>The loop\<close>

lemma fails_at_indep: "fails_at edit envs ctx st i = fails_at edit envs ctx st' i"
  unfolding fails_at_def run_at_def
  using fst_one_state_indep [of edit "envs i" "mailbox ctx" "emails (mailbox ctx) ! i" st
      "mailbox ctx" "emails (mailbox ctx) ! i" st']
  by simp

lemma tagged_after_run:
  assumes "distinct (emails (mailbox ctx))" and "i < msg_count (mailbox ctx)"
  shows "filter (\<lambda>j. message_is_tagged ctx j (snd (run_at edit envs ctx i st)))
           [Suc i..<msg_count (mailbox ctx)] =
         filter (\<lambda>j. message_is_tagged ctx j st) [Suc i..<msg_count (mailbox ctx)]"
proof (rule filter_cong [OF refl])
  fix j assume "j \<in> set [Suc i..<msg_count (mailbox ctx)]"
  then have "j < length (emails (mailbox ctx))" and "i < length (emails (mailbox ctx))"
    and "j \<noteq> i"
    using assms(2) by (simp_all add: msg_count_def)
  then have "emails (mailbox ctx) ! j \<noteq> emails (mailbox ctx) ! i"
    using assms(1) by (simp add: nth_eq_iff_index_eq)
  then show "message_is_tagged ctx j (snd (run_at edit envs ctx i st)) =
             message_is_tagged ctx j st"
    by (simp add: message_is_tagged_def run_at_def heap_one_other)
qed

lemma edit_loop_run_list:
  assumes "distinct (emails (mailbox ctx))"
  shows "edit_loop edit envs ctx i st =
         run_list edit envs ctx
           (filter (\<lambda>j. message_is_tagged ctx j st) [i..<msg_count (mailbox ctx)]) st"
  using assms
proof (induction edit envs ctx i st rule: edit_loop.induct)
  case (1 edit envs ctx i st)
  let ?n = "msg_count (mailbox ctx)"
  let ?r = "edit_or_view_one_message edit (envs i) (mailbox ctx) (emails (mailbox ctx) ! i) st"
  show ?case
  proof (cases "i < ?n")
    case False
    then show ?thesis by (subst edit_loop.simps) simp
  next
    case less: True
    then have upt: "[i..<?n] = i # [Suc i..<?n]"
      by (simp add: upt_conv_Cons)
    show ?thesis
    proof (cases "message_is_tagged ctx i st")
      case False
      have "edit_loop edit envs ctx i st = edit_loop edit envs ctx (i + 1) st"
        using less False by (subst edit_loop.simps) simp
      also have "\<dots> = run_list edit envs ctx
           (filter (\<lambda>j. message_is_tagged ctx j st) [i + 1..<?n]) st"
        using "1.IH"(1) [OF less False "1.prems"] .
      finally show ?thesis using False upt by simp
    next
      case tagged: True
      show ?thesis
      proof (cases "fst ?r = -1")
        case True
        have "edit_loop edit envs ctx i st = (-1, snd ?r)"
          using less tagged True by (subst edit_loop.simps) (simp add: Let_def)
        then show ?thesis using tagged upt True by (simp add: run_at_def Let_def)
      next
        case False
        have "edit_loop edit envs ctx i st = edit_loop edit envs ctx (i + 1) (snd ?r)"
          using less tagged False by (subst edit_loop.simps) (simp add: Let_def)
        also have "\<dots> = run_list edit envs ctx
             (filter (\<lambda>j. message_is_tagged ctx j (snd ?r)) [i + 1..<?n]) (snd ?r)"
          using "1.IH"(2) [OF less _ refl False "1.prems"] tagged by simp
        also have "filter (\<lambda>j. message_is_tagged ctx j (snd ?r)) [i + 1..<?n] =
                   filter (\<lambda>j. message_is_tagged ctx j st) [i + 1..<?n]"
          using tagged_after_run [OF "1.prems" less, of edit envs st] by (simp add: run_at_def)
        finally show ?thesis using tagged upt False by (simp add: run_at_def Let_def)
      qed
    qed
  qed
qed

lemma run_list_foldl:
  "run_list edit envs ctx js st =
     ((if \<exists>i \<in> set js. fails_at edit envs ctx st0 i then -1 else 0),
      foldl (\<lambda>s i. snd (run_at edit envs ctx i s)) st
        (up_to_first_failure (fails_at edit envs ctx st0) js))"
proof (induction js arbitrary: st)
  case Nil
  show ?case by (simp add: up_to_first_failure_def)
next
  case (Cons i js)
  show ?case
  proof (cases "fails_at edit envs ctx st0 i")
    case True
    then have "fst (run_at edit envs ctx i st) = -1"
      using fails_at_indep [of edit envs ctx st0 i st] by (simp add: fails_at_def)
    with True show ?thesis by (simp add: up_to_first_failure_def Let_def)
  next
    case False
    then have "fst (run_at edit envs ctx i st) \<noteq> -1"
      using fails_at_indep [of edit envs ctx st0 i st] by (simp add: fails_at_def)
    with False Cons.IH [of "snd (run_at edit envs ctx i st)"] show ?thesis
      by (simp add: up_to_first_failure_def Let_def)
  qed
qed

lemma edit_loop_visited:
  assumes "distinct (emails (mailbox ctx))"
  shows "edit_loop edit envs ctx 0 st =
     ((if \<exists>i \<in> set (tagged_indices ctx st). fails_at edit envs ctx st i then -1 else 0),
      foldl (\<lambda>s i. snd (run_at edit envs ctx i s)) st (visited edit envs ctx st))"
  using edit_loop_run_list [OF assms, of edit envs 0 st]
    run_list_foldl [of edit envs ctx "tagged_indices ctx st" st st]
  by (simp add: tagged_indices_def visited_def message_is_tagged_def)

lemma emails_ctx3: "emails mbox = [1, 2, 3]" "msg_count mbox = 3" "mailbox ctx3 = mbox"
  by (simp_all add: ctx3_def mbox_def msg_count_def)

lemma upt_3: "[0..<3] = [0, 1, 2]"
  by (simp add: upt_rec)

lemma tagged_indices_ctx3: "tagged_indices ctx3 st_tagged = [0, 1, 2]"
  by (simp add: tagged_indices_def emails_ctx3 upt_3 st_tagged_def email0_def)

section \<open>Properties of edit_or_view_one_message\<close>



text \<open>
  Claim C9. Around the call that opens the new message the \<open>read\<close> and \<open>old\<close> flags
  of the email are cleared and then put back: whatever the call returns, the emails
  after \<open>open_new_message\<close> are the emails before it, and the one call it makes sees
  the email with both flags cleared. Every such call made by
  \<open>edit_or_view_one_message\<close> is made for the email at hand and sees both flags
  cleared. When \<open>edit_or_view_one_message\<close> returns a value other than 0, \<open>read\<close>
  and \<open>old\<close> of the email have the values they had on entry.
\<close>

theorem read_old_restored:
  "heap (snd (open_new_message env cur oflags st)) = heap st
   \<and> new_events st (snd (open_new_message env cur oflags st)) =
       [Mx_msg_open_new cur ((heap st cur)\<lparr>read := False, old := False\<rparr>) oflags]
   \<and> (\<forall>a e f. Mx_msg_open_new a e f
         \<in> set (new_events st (snd (edit_or_view_one_message edit env m cur st))) \<longrightarrow>
         a = cur \<and> \<not> read e \<and> \<not> old e)
   \<and> (fst (edit_or_view_one_message edit env m cur st) \<noteq> 0 \<longrightarrow>
        read (heap (snd (edit_or_view_one_message edit env m cur st)) cur) = read (heap st cur)
      \<and> old (heap (snd (edit_or_view_one_message edit env m cur st)) cur) = old (heap st cur))"
proof -
  let ?st' = "snd (edit_or_view_one_message edit env m cur st)"
  have "take (length (trace st)) (trace ?st') = trace st"
    by (simp add: take_one)
  moreover have "filter (not_cleared cur) (trace ?st') = filter (not_cleared cur) (trace st) @ []"
    by (simp add: not_cleared_one)
  ultimately have "filter (not_cleared cur) (new_events st ?st') = []"
    by (rule filter_new_events)
  then have "\<forall>ev \<in> set (new_events st ?st'). \<not> not_cleared cur ev"
    by (simp add: filter_empty_conv)
  then have "\<forall>a e f. Mx_msg_open_new a e f \<in> set (new_events st ?st') \<longrightarrow>
               a = cur \<and> \<not> read e \<and> \<not> old e"
    by fastforce
  then show ?thesis
    by (simp add: heap_one new_events_def)
qed

theorem read_old_restored_witness:
  "fst (edit_or_view_one_message True env_commit_fails mbox 1 st_tagged) = -1
   \<and> read (heap st_tagged 1) \<and> old (heap st_tagged 1)
   \<and> read (heap (snd (edit_or_view_one_message True env_commit_fails mbox 1 st_tagged)) 1)
   \<and> old (heap (snd (edit_or_view_one_message True env_commit_fails mbox 1 st_tagged)) 1)
   \<and> new_events st_tagged (snd (open_new_message env_commit_fails 1 {} st_tagged)) =
       [Mx_msg_open_new 1 (email0\<lparr>tagged := True\<rparr>) {}]"
proof -
  have rc: "fst (edit_or_view_one_message True env_commit_fails mbox 1 st_tagged) = -1"
    by (simp add: fst_one fst_after_edit fst_reintegrate env_commit_fails_def env_ok_def)
  have flags: "read (heap st_tagged 1)" "old (heap st_tagged 1)"
    "(heap st_tagged 1)\<lparr>read := False, old := False\<rparr> = email0\<lparr>tagged := True\<rparr>"
    by (simp_all add: st_tagged_def email0_def)
  from read_old_restored [of env_commit_fails 1 "{}" st_tagged True mbox] rc flags
  show ?thesis by simp
qed

text \<open>
  Claim C5. Whenever \<open>edit_or_view_one_message\<close> returns 0, the original email is
  marked deleted, purged and read, and it is untagged exactly when \<open>DeleteUntag\<close> is
  set (otherwise its tag is left as it was): these are the calls of
  \<^verbatim>\<open>mutt_set_flag\<close> the run makes, in this order, and the flags hold afterwards.
  Whenever it returns any other value, no call of \<^verbatim>\<open>mutt_set_flag\<close> is made and
  every email is as it was on entry.
\<close>

theorem committed_marks_original:
  "(fst (edit_or_view_one_message edit env m cur st) = 0 \<longrightarrow>
      deleted (heap (snd (edit_or_view_one_message edit env m cur st)) cur)
    \<and> purged (heap (snd (edit_or_view_one_message edit env m cur st)) cur)
    \<and> read (heap (snd (edit_or_view_one_message edit env m cur st)) cur)
    \<and> tagged (heap (snd (edit_or_view_one_message edit env m cur st)) cur)
        = (\<not> DeleteUntag st \<and> tagged (heap st cur))
    \<and> filter is_set_flag (new_events st (snd (edit_or_view_one_message edit env m cur st))) =
        [Mutt_set_flag cur MUTT_DELETE True, Mutt_set_flag cur MUTT_PURGE True,
         Mutt_set_flag cur MUTT_READ True] @
        (if DeleteUntag st then [Mutt_set_flag cur MUTT_TAG False] else []))
  \<and> (fst (edit_or_view_one_message edit env m cur st) \<noteq> 0 \<longrightarrow>
      heap (snd (edit_or_view_one_message edit env m cur st)) = heap st
    \<and> filter is_set_flag (new_events st (snd (edit_or_view_one_message edit env m cur st))) = [])"
proof -
  let ?r = "edit_or_view_one_message edit env m cur st"
  have "take (length (trace st)) (trace (snd ?r)) = trace st"
    by (simp add: take_one)
  from filter_new_events [OF this set_flag_one]
  have "filter is_set_flag (new_events st (snd ?r)) =
          (if fst ?r = 0 then flag_events cur (DeleteUntag st) else [])" .
  then show ?thesis
    by (simp add: heap_one flag_events_def)
qed

theorem committed_marks_original_witness:
  "fst (edit_or_view_one_message True env_ok mbox 1 st_tagged) = 0
   \<and> DeleteUntag st_tagged \<and> tagged (heap st_tagged 1)
   \<and> deleted (heap (snd (edit_or_view_one_message True env_ok mbox 1 st_tagged)) 1)
   \<and> purged (heap (snd (edit_or_view_one_message True env_ok mbox 1 st_tagged)) 1)
   \<and> read (heap (snd (edit_or_view_one_message True env_ok mbox 1 st_tagged)) 1)
   \<and> \<not> tagged (heap (snd (edit_or_view_one_message True env_ok mbox 1 st_tagged)) 1)
   \<and> filter is_set_flag
       (new_events st_tagged (snd (edit_or_view_one_message True env_ok mbox 1 st_tagged))) =
       [Mutt_set_flag 1 MUTT_DELETE True, Mutt_set_flag 1 MUTT_PURGE True,
        Mutt_set_flag 1 MUTT_READ True, Mutt_set_flag 1 MUTT_TAG False]"
proof -
  have rc: "fst (edit_or_view_one_message True env_ok mbox 1 st_tagged) = 0"
    by (simp add: fst_one fst_after_edit fst_reintegrate env_ok_def)
  have st: "DeleteUntag st_tagged" "tagged (heap st_tagged 1)"
    by (simp_all add: st_tagged_def)
  from committed_marks_original [of True env_ok mbox 1 st_tagged] rc st
  show ?thesis by simp
qed

text \<open>
  Claim C6. In edit mode, when the run gets as far as inspecting the file after the
  editor (the temporary folder was created and written, both \<^verbatim>\<open>stat\<close> calls
  succeeded, the truncation did not fail), the file is not empty and its modification
  time equals the reference time, the result is 1 (not modified), no call acts on the
  mailbox, no flag is set, every email is as before, and the temporary file is
  unlinked.
\<close>

theorem unmodified_is_unchanged:
  assumes "mx_mbox_open_tmp env" and "mutt_append_message_rc env \<noteq> -1"
    and "stat_before env = Some sb0" and "st_size sb0 = 0 \<or> truncate_rc env \<noteq> -1"
    and "stat_after env = Some sb" and "st_size sb \<noteq> 0"
    and "st_mtime sb = decrease_mtime env"
  shows "fst (edit_or_view_one_message True env m cur st) = 1
    \<and> heap (snd (edit_or_view_one_message True env m cur st)) = heap st
    \<and> (\<forall>ev \<in> set (new_events st (snd (edit_or_view_one_message True env m cur st))).
          \<not> reintegration_event ev \<and> \<not> is_set_flag ev)
    \<and> Unlink \<in> set (new_events st (snd (edit_or_view_one_message True env m cur st)))"
  using assms by (simp add: one_defs)

theorem unmodified_is_unchanged_witness:
  "mx_mbox_open_tmp env_unmodified \<and> mutt_append_message_rc env_unmodified \<noteq> -1
   \<and> stat_before env_unmodified = Some \<lparr>st_size = 120, st_mtime = 1000\<rparr>
   \<and> truncate_rc env_unmodified \<noteq> -1
   \<and> stat_after env_unmodified = Some \<lparr>st_size = 119, st_mtime = 999\<rparr>
   \<and> decrease_mtime env_unmodified = 999
   \<and> fst (edit_or_view_one_message True env_unmodified mbox 1 st_tagged) = 1
   \<and> heap (snd (edit_or_view_one_message True env_unmodified mbox 1 st_tagged)) = heap st_tagged
   \<and> Unlink \<in> set (new_events st_tagged
                     (snd (edit_or_view_one_message True env_unmodified mbox 1 st_tagged)))"
proof -
  have h: "mx_mbox_open_tmp env_unmodified" "mutt_append_message_rc env_unmodified \<noteq> -1"
    "stat_before env_unmodified = Some \<lparr>st_size = 120, st_mtime = 1000\<rparr>"
    "st_size \<lparr>st_size = 120, st_mtime = 1000\<rparr> = 0 \<or> truncate_rc env_unmodified \<noteq> -1"
    "stat_after env_unmodified = Some \<lparr>st_size = 119, st_mtime = 999\<rparr>"
    "st_size \<lparr>st_size = 119, st_mtime = 999\<rparr> \<noteq> 0"
    "st_mtime \<lparr>st_size = 119, st_mtime = 999\<rparr> = decrease_mtime env_unmodified"
    by (simp_all add: env_unmodified_def env_ok_def)
  from unmodified_is_unchanged [OF h, of mbox 1 st_tagged] h
  show ?thesis by simp
qed

text \<open>
  Claim C7, as amended. In either mode, when the run gets as far as inspecting the
  file after the editor and the file has size zero, the message
  "Message file is empty" is issued, the result is 1 (the value documented as
  "Message not modified", not the error value -1), no call acts on the mailbox, no
  flag is set, and the temporary file is unlinked.
\<close>

theorem empty_file_is_unchanged:
  assumes "mx_mbox_open_tmp env" and "mutt_append_message_rc env \<noteq> -1"
    and "stat_before env = Some sb0" and "st_size sb0 = 0 \<or> truncate_rc env \<noteq> -1"
    and "stat_after env = Some sb" and "st_size sb = 0"
  shows "fst (edit_or_view_one_message edit env m cur st) = 1
    \<and> Mutt_message ''Message file is empty''
         \<in> set (new_events st (snd (edit_or_view_one_message edit env m cur st)))
    \<and> heap (snd (edit_or_view_one_message edit env m cur st)) = heap st
    \<and> (\<forall>ev \<in> set (new_events st (snd (edit_or_view_one_message edit env m cur st))).
          \<not> reintegration_event ev \<and> \<not> is_set_flag ev)
    \<and> Unlink \<in> set (new_events st (snd (edit_or_view_one_message edit env m cur st)))"
  using assms by (simp add: one_defs)

theorem empty_file_is_unchanged_witness:
  "mx_mbox_open_tmp env_empty \<and> mutt_append_message_rc env_empty \<noteq> -1
   \<and> stat_before env_empty = Some \<lparr>st_size = 120, st_mtime = 1000\<rparr>
   \<and> truncate_rc env_empty \<noteq> -1
   \<and> stat_after env_empty = Some \<lparr>st_size = 0, st_mtime = 1005\<rparr>
   \<and> fst (edit_or_view_one_message True env_empty mbox 1 st_tagged) = 1
   \<and> Mutt_message ''Message file is empty''
       \<in> set (new_events st_tagged (snd (edit_or_view_one_message True env_empty mbox 1 st_tagged)))
   \<and> Unlink \<in> set (new_events st_tagged
                     (snd (edit_or_view_one_message True env_empty mbox 1 st_tagged)))"
proof -
  have h: "mx_mbox_open_tmp env_empty" "mutt_append_message_rc env_empty \<noteq> -1"
    "stat_before env_empty = Some \<lparr>st_size = 120, st_mtime = 1000\<rparr>"
    "st_size \<lparr>st_size = 120, st_mtime = 1000\<rparr> = 0 \<or> truncate_rc env_empty \<noteq> -1"
    "stat_after env_empty = Some \<lparr>st_size = 0, st_mtime = 1005\<rparr>"
    "st_size \<lparr>st_size = 0, st_mtime = 1005\<rparr> = 0"
    by (simp_all add: env_empty_def env_ok_def)
  from empty_file_is_unchanged [OF h, of True mbox 1 st_tagged] h
  show ?thesis by simp
qed

text \<open>
  Claim C7 as stated has the result of such a run be the error value. On an input
  whose file is empty after the editor the result is 1, not -1.
\<close>

theorem empty_file_not_failed:
  "stat_after env_empty = Some \<lparr>st_size = 0, st_mtime = 1005\<rparr>
   \<and> fst (edit_or_view_one_message True env_empty mbox 1 st_init) = 1
   \<and> fst (edit_or_view_one_message True env_empty mbox 1 st_init) \<noteq> -1"
  by (simp add: fst_one fst_after_edit env_empty_def env_ok_def)

text \<open>
  Claim C1 says that a reintegration of which any step fails returns -1, leaves the
  flags of the original alone and keeps the temporary file. The code at an input
  where \<^verbatim>\<open>mx_msg_open_new\<close> returns NULL: the branch of line 221 reports the
  error and leaves for \<^verbatim>\<open>bail\<close> with \<^verbatim>\<open>rc\<close> still 0, so the function returns
  0, the temporary file is unlinked and the original is marked deleted, purged and
  read. Likewise at an input where \<^verbatim>\<open>mutt_copy_hdr\<close> returns -1 and the commit
  succeeds: the value of the commit replaces that of the copy.
\<close>

theorem open_new_failure_returns_committed:
  "\<not> mx_msg_open_new_ok env_open_new_fails
   \<and> fst (edit_or_view_one_message True env_open_new_fails mbox 1 st_init) = 0
   \<and> deleted (heap (snd (edit_or_view_one_message True env_open_new_fails mbox 1 st_init)) 1)
   \<and> purged (heap (snd (edit_or_view_one_message True env_open_new_fails mbox 1 st_init)) 1)
   \<and> read (heap (snd (edit_or_view_one_message True env_open_new_fails mbox 1 st_init)) 1)
   \<and> trace (snd (edit_or_view_one_message True env_open_new_fails mbox 1 st_init)) =
       [Mutt_mktemp, Mx_mbox_open_newfolder MUTT_MBOX, Mutt_append_message 1 {CH_NOLEN},
        Mx_mbox_close, Truncate 119, Mutt_file_decrease_mtime, Mutt_edit_file, Fopen,
        Mx_mbox_open_append, Mx_msg_open_new 1 email0 {},
        Mutt_error ''Can't append to folder: %s'', Mx_mbox_close, Mutt_file_fclose, Unlink,
        Mutt_set_flag 1 MUTT_DELETE True, Mutt_set_flag 1 MUTT_PURGE True,
        Mutt_set_flag 1 MUTT_READ True]
   \<and> mutt_copy_hdr_rc env_copy_hdr_fails = -1
   \<and> fst (edit_or_view_one_message True env_copy_hdr_fails mbox 1 st_init) = 0
   \<and> deleted (heap (snd (edit_or_view_one_message True env_copy_hdr_fails mbox 1 st_init)) 1)
   \<and> Unlink \<in> set (trace (snd (edit_or_view_one_message True env_copy_hdr_fails mbox 1 st_init)))"
  by (simp add: eval_defs env_open_new_fails_def env_copy_hdr_fails_def env_ok_def mbox_def
      st_init_def email0_def)

text \<open>
  Claim C2 says that a failing truncation of the temporary file makes the run fail
  with -1, with no reintegration and the original not marked. The code at an input
  where the file has size 120 and \<^verbatim>\<open>truncate\<close> returns -1: the truncation to 119
  bytes is attempted, the error is reported, and the branch of line 122 leaves for
  \<^verbatim>\<open>bail\<close> with \<^verbatim>\<open>rc\<close> still 0; the function returns 0, unlinks the temporary
  file and marks the original deleted, purged and read. The editor is never run.
\<close>

theorem truncate_failure_returns_committed:
  "stat_before env_truncate_fails = Some \<lparr>st_size = 120, st_mtime = 1000\<rparr>
   \<and> truncate_rc env_truncate_fails = -1
   \<and> fst (edit_or_view_one_message True env_truncate_fails mbox 1 st_init) = 0
   \<and> deleted (heap (snd (edit_or_view_one_message True env_truncate_fails mbox 1 st_init)) 1)
   \<and> purged (heap (snd (edit_or_view_one_message True env_truncate_fails mbox 1 st_init)) 1)
   \<and> read (heap (snd (edit_or_view_one_message True env_truncate_fails mbox 1 st_init)) 1)
   \<and> trace (snd (edit_or_view_one_message True env_truncate_fails mbox 1 st_init)) =
       [Mutt_mktemp, Mx_mbox_open_newfolder MUTT_MBOX, Mutt_append_message 1 {CH_NOLEN},
        Mx_mbox_close, Truncate 119,
        Mutt_error ''could not truncate temporary mail folder: %s'', Mutt_file_fclose, Unlink,
        Mutt_set_flag 1 MUTT_DELETE True, Mutt_set_flag 1 MUTT_PURGE True,
        Mutt_set_flag 1 MUTT_READ True]"
  by (simp add: eval_defs env_truncate_fails_def env_ok_def mbox_def st_init_def email0_def)

text \<open>
  Claim C3 says that a run in view mode never changes the flags of the original and
  never returns 0. The code in view mode at the input of C2, where \<^verbatim>\<open>truncate\<close>
  returns -1: it returns 0 and marks the original deleted, purged and read, also when
  called through \<open>mutt_view_message\<close>.
\<close>

theorem view_mode_truncate_failure_marks_original:
  "truncate_rc env_truncate_fails = -1
   \<and> fst (edit_or_view_one_message False env_truncate_fails mbox 1 st_init) = 0
   \<and> \<not> deleted (heap st_init 1)
   \<and> deleted (heap (snd (edit_or_view_one_message False env_truncate_fails mbox 1 st_init)) 1)
   \<and> purged (heap (snd (edit_or_view_one_message False env_truncate_fails mbox 1 st_init)) 1)
   \<and> read (heap (snd (edit_or_view_one_message False env_truncate_fails mbox 1 st_init)) 1)
   \<and> fst (mutt_view_message (\<lambda>_. env_truncate_fails) ctx3 (Some 1) st_init) = 0"
  by (simp add: eval_defs mutt_view_message_def edit_or_view_message_def ctx3_def
      env_truncate_fails_def env_ok_def mbox_def st_init_def email0_def)

subsection \<open>What holds around the three stale return values\<close>

text \<open>
  Property X1. When the temporary folder has been created and written and its
  \<^verbatim>\<open>stat\<close> succeeds with size \<open>s\<close>, the run calls \<^verbatim>\<open>truncate\<close> exactly once,
  with length \<open>s - 1\<close>, if \<open>s\<close> is not 0, and never if \<open>s\<close> is 0.
\<close>

theorem truncate_by_one:
  assumes "mx_mbox_open_tmp env" and "mutt_append_message_rc env \<noteq> -1"
    and "stat_before env = Some sb"
  shows "filter is_truncate (new_events st (snd (edit_or_view_one_message edit env m cur st))) =
           (if st_size sb \<noteq> 0 then [Truncate (st_size sb - 1)] else [])"
proof -
  have "take (length (trace st)) (trace (snd (edit_or_view_one_message edit env m cur st))) =
        trace st"
    by (simp add: take_one)
  from filter_new_events [OF this is_truncate_one [OF assms]] show ?thesis .
qed

theorem truncate_by_one_witness:
  "mx_mbox_open_tmp env_ok \<and> mutt_append_message_rc env_ok \<noteq> -1
   \<and> stat_before env_ok = Some \<lparr>st_size = 120, st_mtime = 1000\<rparr>
   \<and> filter is_truncate (new_events st_init (snd (edit_or_view_one_message True env_ok mbox 1 st_init)))
       = [Truncate 119]"
proof -
  have h: "mx_mbox_open_tmp env_ok" "mutt_append_message_rc env_ok \<noteq> -1"
    "stat_before env_ok = Some \<lparr>st_size = 120, st_mtime = 1000\<rparr>"
    by (simp_all add: env_ok_def)
  from truncate_by_one [OF h, of st_init True mbox 1] h show ?thesis by simp
qed

text \<open>
  Property X2. A run in view mode makes no call on the mailbox the edited message
  would be appended to. It returns 0 only when the truncation of a non-empty
  temporary file failed; whenever it returns another value, every email is as it was
  on entry.
\<close>

theorem view_mode_never_reintegrates:
  "(\<forall>ev \<in> set (new_events st (snd (edit_or_view_one_message False env m cur st))).
      \<not> reintegration_event ev)
   \<and> (fst (edit_or_view_one_message False env m cur st) = 0 \<longrightarrow>
        mx_mbox_open_tmp env \<and> mutt_append_message_rc env \<noteq> -1
      \<and> (\<exists>sb. stat_before env = Some sb \<and> st_size sb \<noteq> 0) \<and> truncate_rc env = -1)
   \<and> (fst (edit_or_view_one_message False env m cur st) \<noteq> 0 \<longrightarrow>
        heap (snd (edit_or_view_one_message False env m cur st)) = heap st)"
proof -
  have "take (length (trace st)) (trace (snd (edit_or_view_one_message False env m cur st))) =
        trace st"
    by (simp add: take_one)
  from filter_new_events [OF this reintegration_one_view]
  have "\<forall>ev \<in> set (new_events st (snd (edit_or_view_one_message False env m cur st))).
      \<not> reintegration_event ev"
    by (simp add: filter_empty_conv)
  moreover have "fst (edit_or_view_one_message False env m cur st) = 0 \<longrightarrow>
        mx_mbox_open_tmp env \<and> mutt_append_message_rc env \<noteq> -1
      \<and> (\<exists>sb. stat_before env = Some sb \<and> st_size sb \<noteq> 0) \<and> truncate_rc env = -1"
    by (simp add: fst_one fst_after_edit split: option.splits if_splits)
  ultimately show ?thesis by (simp add: heap_one)
qed

theorem view_mode_never_reintegrates_witness:
  "fst (edit_or_view_one_message False env_ok mbox 1 st_tagged) = 1
   \<and> heap (snd (edit_or_view_one_message False env_ok mbox 1 st_tagged)) = heap st_tagged
   \<and> Mutt_edit_file \<in> set (new_events st_tagged (snd (edit_or_view_one_message False env_ok mbox 1 st_tagged)))
   \<and> \<not> reintegration_event Mutt_edit_file"
proof -
  have rc: "fst (edit_or_view_one_message False env_ok mbox 1 st_tagged) = 1"
    by (simp add: fst_one fst_after_edit env_ok_def)
  have ev: "Mutt_edit_file \<in> set (new_events st_tagged (snd (edit_or_view_one_message False env_ok mbox 1 st_tagged)))"
    by (simp add: one_defs env_ok_def st_tagged_def)
  from view_mode_never_reintegrates [of st_tagged env_ok mbox 1] rc ev show ?thesis by simp
qed

text \<open>
  Property X3. In edit mode, when the editor changed a non-empty file and the edited
  file cannot be opened, or the mailbox cannot be opened for appending, or the new
  message was opened and its commit returns -1, the run returns -1, every email is
  as it was on entry, the temporary file is not unlinked and the message that it is
  preserved is issued.
\<close>

theorem reintegration_failure_reported:
  assumes "mx_mbox_open_tmp env" and "mutt_append_message_rc env \<noteq> -1"
    and "stat_before env = Some sb0" and "st_size sb0 = 0 \<or> truncate_rc env \<noteq> -1"
    and "stat_after env = Some sb" and "st_size sb \<noteq> 0"
    and "st_mtime sb \<noteq> decrease_mtime env"
    and "\<not> fopen_ok env \<or> mx_mbox_open_append env = None
         \<or> (mx_msg_open_new_ok env \<and> mx_msg_commit_rc env = -1)"
  shows "fst (edit_or_view_one_message True env m cur st) = -1
    \<and> heap (snd (edit_or_view_one_message True env m cur st)) = heap st
    \<and> Unlink \<notin> set (new_events st (snd (edit_or_view_one_message True env m cur st)))
    \<and> Mutt_message ''Error. Preserving temporary file: %s''
        \<in> set (new_events st (snd (edit_or_view_one_message True env m cur st)))"
proof (cases "fopen_ok env")
  case False
  with assms(1-7) show ?thesis by (simp add: one_defs)
next
  case fopen: True
  show ?thesis
  proof (cases "mx_mbox_open_append env")
    case None
    with fopen assms(1-7) show ?thesis by (simp add: one_defs)
  next
    case (Some d)
    with fopen assms(8) have "mx_msg_open_new_ok env" "mx_msg_commit_rc env = -1" by simp_all
    with Some fopen assms(1-7) show ?thesis by (simp add: one_defs)
  qed
qed

theorem reintegration_failure_reported_witness:
  "mx_msg_open_new_ok env_commit_fails \<and> mx_msg_commit_rc env_commit_fails = -1
   \<and> fst (edit_or_view_one_message True env_commit_fails mbox 1 st_tagged) = -1
   \<and> heap (snd (edit_or_view_one_message True env_commit_fails mbox 1 st_tagged)) = heap st_tagged
   \<and> Unlink \<notin> set (new_events st_tagged
                      (snd (edit_or_view_one_message True env_commit_fails mbox 1 st_tagged)))"
proof -
  have h: "mx_mbox_open_tmp env_commit_fails" "mutt_append_message_rc env_commit_fails \<noteq> -1"
    "stat_before env_commit_fails = Some \<lparr>st_size = 120, st_mtime = 1000\<rparr>"
    "st_size \<lparr>st_size = 120, st_mtime = 1000\<rparr> = 0 \<or> truncate_rc env_commit_fails \<noteq> -1"
    "stat_after env_commit_fails = Some \<lparr>st_size = 125, st_mtime = 1005\<rparr>"
    "st_size \<lparr>st_size = 125, st_mtime = 1005\<rparr> \<noteq> 0"
    "st_mtime \<lparr>st_size = 125, st_mtime = 1005\<rparr> \<noteq> decrease_mtime env_commit_fails"
    "\<not> fopen_ok env_commit_fails \<or> mx_mbox_open_append env_commit_fails = None
         \<or> (mx_msg_open_new_ok env_commit_fails \<and> mx_msg_commit_rc env_commit_fails = -1)"
    by (simp_all add: env_commit_fails_def env_ok_def)
  have k: "mx_msg_open_new_ok env_commit_fails" "mx_msg_commit_rc env_commit_fails = -1"
    by (simp_all add: env_commit_fails_def env_ok_def)
  from reintegration_failure_reported [OF h, of mbox 1 st_tagged] k show ?thesis by simp
qed

section \<open>Properties of edit_or_view_message\<close>

text \<open>
  Claim C8. Let the emails of the mailbox be pairwise distinct. Called without a
  single target, \<open>edit_or_view_message\<close> runs the per-message operation on the
  messages of \<open>visited\<close>, in that order and each on the state its predecessor left:
  these are the messages tagged on entry, in stored index order, up to and including
  the first whose run returns -1; no other message is processed. It returns -1 when
  the run of some tagged message returns -1, and 0 otherwise. Called with a single
  target, it is one run of the per-message operation on that email, and returns its
  result.
\<close>

theorem tagged_batch:
  assumes "distinct (emails (mailbox ctx))"
  shows "edit_or_view_message edit envs ctx None st =
           ((if \<exists>i \<in> set (tagged_indices ctx st).
                  fst (edit_or_view_one_message edit (envs i) (mailbox ctx)
                         (emails (mailbox ctx) ! i) st) = -1
             then -1 else 0),
            foldl (\<lambda>s i. snd (edit_or_view_one_message edit (envs i) (mailbox ctx)
                                 (emails (mailbox ctx) ! i) s))
              st (visited edit envs ctx st))
       \<and> edit_or_view_message edit envs ctx (Some cur) st =
           edit_or_view_one_message edit (envs 0) (mailbox ctx) cur st"
  using edit_loop_visited [OF assms, of edit envs st]
  by (simp add: edit_or_view_message_def fails_at_def run_at_def)

theorem tagged_batch_witness:
  "distinct (emails (mailbox ctx3))
   \<and> tagged_indices ctx3 st_tagged = [0, 1, 2]
   \<and> visited True envs_second_fails ctx3 st_tagged = [0, 1]
   \<and> fst (edit_or_view_message True envs_second_fails ctx3 None st_tagged) = -1
   \<and> deleted (heap (snd (edit_or_view_message True envs_second_fails ctx3 None st_tagged)) 1)
   \<and> heap (snd (edit_or_view_message True envs_second_fails ctx3 None st_tagged)) 2 =
       heap st_tagged 2
   \<and> heap (snd (edit_or_view_message True envs_second_fails ctx3 None st_tagged)) 3 =
       heap st_tagged 3
   \<and> fst (edit_or_view_message True envs_second_fails ctx3 (Some 3) st_tagged) = 0"
proof -
  have d: "distinct (emails (mailbox ctx3))"
    by (simp add: emails_ctx3)
  have v: "visited True envs_second_fails ctx3 st_tagged = [0, 1]"
    by (simp add: visited_def tagged_indices_ctx3 up_to_first_failure_def fails_at_def run_at_def
        envs_second_fails_def rc_env_ok rc_env_commit_fails)
  have f: "fst (edit_or_view_one_message True (envs_second_fails 1) (mailbox ctx3)
                  (emails (mailbox ctx3) ! 1) st_tagged) = -1"
    by (simp add: envs_second_fails_def rc_env_commit_fails)
  from tagged_batch [OF d, of True envs_second_fails st_tagged 3] d v f
  show ?thesis
    by (simp add: tagged_indices_ctx3 emails_ctx3 heap_one envs_second_fails_def rc_env_ok
        rc_env_commit_fails)
qed

text \<open>
  Claim C10. Let the emails of the mailbox be pairwise distinct. Called without a
  single target, \<open>edit_or_view_message\<close> returns 0 when no run made for a tagged
  message returns -1: also when every tagged message yields 1, and when no message is
  tagged at all.
\<close>

theorem untargeted_returns_zero:
  assumes "distinct (emails (mailbox ctx))"
    and "\<forall>i < msg_count (mailbox ctx). tagged (heap st (emails (mailbox ctx) ! i)) \<longrightarrow>
           fst (edit_or_view_one_message edit (envs i) (mailbox ctx)
                  (emails (mailbox ctx) ! i) st) \<noteq> -1"
  shows "fst (edit_or_view_message edit envs ctx None st) = 0"
proof -
  have "\<not> (\<exists>i \<in> set (tagged_indices ctx st). fails_at edit envs ctx st i)"
    using assms(2) by (auto simp add: tagged_indices_def fails_at_def run_at_def)
  with edit_loop_visited [OF assms(1), of edit envs st] show ?thesis
    by (simp add: edit_or_view_message_def)
qed

theorem untargeted_returns_zero_witness:
  "distinct (emails (mailbox ctx3))
   \<and> tagged (heap st_tagged 1) \<and> tagged (heap st_tagged 2) \<and> tagged (heap st_tagged 3)
   \<and> fst (edit_or_view_one_message True env_unmodified mbox 1 st_tagged) = 1
   \<and> fst (edit_or_view_one_message True env_unmodified mbox 2 st_tagged) = 1
   \<and> fst (edit_or_view_one_message True env_unmodified mbox 3 st_tagged) = 1
   \<and> fst (edit_or_view_message True (\<lambda>_. env_unmodified) ctx3 None st_tagged) = 0
   \<and> tagged_indices ctx3 st_init = []
   \<and> fst (edit_or_view_message True (\<lambda>_. env_ok) ctx3 None st_init) = 0"
proof -
  have d: "distinct (emails (mailbox ctx3))"
    by (simp add: emails_ctx3)
  have t: "tagged (heap st_tagged 1)" "tagged (heap st_tagged 2)" "tagged (heap st_tagged 3)"
    by (simp_all add: st_tagged_def)
  have h1: "\<forall>i < msg_count (mailbox ctx3). tagged (heap st_tagged (emails (mailbox ctx3) ! i)) \<longrightarrow>
           fst (edit_or_view_one_message True ((\<lambda>_. env_unmodified) i) (mailbox ctx3)
                  (emails (mailbox ctx3) ! i) st_tagged) \<noteq> -1"
    by (simp add: rc_env_unmodified)
  have h2: "\<forall>i < msg_count (mailbox ctx3). tagged (heap st_init (emails (mailbox ctx3) ! i)) \<longrightarrow>
           fst (edit_or_view_one_message True ((\<lambda>_. env_ok) i) (mailbox ctx3)
                  (emails (mailbox ctx3) ! i) st_init) \<noteq> -1"
    by (simp add: rc_env_ok)
  have e: "tagged_indices ctx3 st_init = []"
    by (simp add: tagged_indices_def st_init_def email0_def)
  from untargeted_returns_zero [OF d h1] untargeted_returns_zero [OF d h2] d t e
  show ?thesis by (simp add: rc_env_unmodified)
qed

end
